theory Spec2Isabelle
  imports Main "HOL-Library.Word"
begin

section \<open>Carla plugin internals: resource tables, report queue, teardown\<close>

text \<open>
  A shallow embedding of \<^verbatim>\<open>source/backend/plugin/CarlaPluginInternal.hpp\<close>.
  Every C++ member function becomes a HOL function from the object before the call to
  the object after it. A pointer to an owned array is an \<open>option\<close> of a list:
  \<open>None\<close> is \<^verbatim>\<open>nullptr\<close>, \<open>Some xs\<close> is an allocation holding the elements
  \<open>xs\<close>. The C++ pointer carries no length; the length of the list is the extent of the
  allocation, and a read or write past it is the fault \<open>OutOfBounds\<close>.
  \<^verbatim>\<open>uint32_t\<close> and \<^verbatim>\<open>int32_t\<close> are \<open>32 word\<close> (read with \<open>unat\<close> and
  \<open>sint\<close>). Whether a \<^verbatim>\<open>new T[n]\<close> succeeds depends on the heap, which is
  outside the object: it is an argument of the call. When it fails,
  \<^verbatim>\<open>std::bad_alloc\<close> leaves the call and the object stays as the statements before
  the throw left it. Objects released with \<^verbatim>\<open>delete\<close> are not tracked beyond
  the pointer being set to null.
\<close>

subsection \<open>Assertion macros\<close>

datatype build = Debug | Release

text \<open>
  How a call can end without returning: a failed assertion stops the program, a read
  through a null pointer or past an allocation has no defined result, and
  \<open>BadAlloc s\<close> is \<^verbatim>\<open>std::bad_alloc\<close> thrown out of the call with the object left in
  state \<open>s\<close>.
\<close>

datatype 's fault = AssertAbort | NullDeref | OutOfBounds | BadAlloc 's

text \<open>
  A call on an object of type \<open>'s\<close> returns either a fault or its result together
  with the messages handed to \<^verbatim>\<open>carla_safe_assert\<close> during the call, in order.
\<close>

type_synonym ('s, 'a) result = "'s fault + 'a \<times> string list"

text \<open>
  Modelled from the spec: the macros \<^verbatim>\<open>CARLA_ASSERT\<close>, \<^verbatim>\<open>CARLA_ASSERT_INT\<close>,
  \<^verbatim>\<open>CARLA_ASSERT_INT2\<close>, \<^verbatim>\<open>CARLA_SAFE_ASSERT\<close> and
  \<^verbatim>\<open>CARLA_SAFE_ASSERT_RETURN\<close> are defined outside this header. The spec describes
  contract violations as "surfaced via debug-time assertions and, where recoverable, a
  runtime safety check that logs and returns harmlessly in release builds", and as
  "asserted as a programming error in debug builds, tolerated in release". So a failed
  \<^verbatim>\<open>CARLA_ASSERT*\<close> stops the program in a debug build and is logged in a release
  build; a failed \<^verbatim>\<open>CARLA_SAFE_ASSERT\<close> is logged in every build. The message is
  the text of the condition.
\<close>

definition CARLA_SAFE_ASSERT :: "bool \<Rightarrow> string \<Rightarrow> string list" where
  "CARLA_SAFE_ASSERT cond msg = (if cond then [] else [msg])"

fun CARLA_ASSERT :: "build \<Rightarrow> (bool \<times> string) list \<Rightarrow> 's fault + string list" where
  "CARLA_ASSERT b [] = Inr []"
| "CARLA_ASSERT b ((cond, msg) # rest) =
     (if cond then CARLA_ASSERT b rest
      else (case b of
              Debug \<Rightarrow> Inl AssertAbort
            | Release \<Rightarrow> (case CARLA_ASSERT b rest of
                            Inl e \<Rightarrow> Inl e
                          | Inr msgs \<Rightarrow> Inr (msg # msgs))))"

subsection \<open>Loops over an owned array\<close>

text \<open>
  \<^verbatim>\<open>for (uint32_t i=0; i < count; ++i) body(arr[i])\<close>: the index runs below
  \<open>n \<le> 2^32 - 1\<close>, so \<^verbatim>\<open>++i\<close> never wraps and the index is a \<open>nat\<close>. Every
  iteration touches \<^verbatim>\<open>arr[i]\<close>; past the allocation that is a fault.
\<close>

function for_each_index :: "nat \<Rightarrow> nat \<Rightarrow> ('a \<Rightarrow> 'a) \<Rightarrow> 'a list \<Rightarrow> 's fault + 'a list" where
  "for_each_index i n body arr =
     (if i < n then
        (if i < length arr then for_each_index (Suc i) n body (arr[i := body (arr ! i)])
         else Inl OutOfBounds)
      else Inr arr)"
  by pat_completeness auto
termination
  by (relation "measure (\<lambda>(i, n, body, arr). n - i)") auto

declare for_each_index.simps [simp del]

subsection \<open>Audio ports\<close>

type_synonym handle = nat

record PluginAudioPort =
  rindex :: "32 word"
  port :: "handle option"

definition PluginAudioPort_init :: PluginAudioPort where
  "PluginAudioPort_init = \<lparr>rindex = 0, port = None\<rparr>"

record PluginAudioData =
  count :: "32 word"
  ports :: "PluginAudioPort list option"

definition PluginAudioData_init :: PluginAudioData where
  "PluginAudioData_init = \<lparr>count = 0, ports = None\<rparr>"

text \<open>
  \<open>newOk\<close> says whether the \<^verbatim>\<open>new PluginAudioPort[newCount]\<close> of this call
  succeeds. It throws before \<open>ports\<close> is assigned, so the table is then unchanged.
\<close>

definition PluginAudioData_createNew ::
  "build \<Rightarrow> bool \<Rightarrow> 32 word \<Rightarrow> PluginAudioData \<Rightarrow> (PluginAudioData, PluginAudioData) result" where
  "PluginAudioData_createNew b newOk newCount t =
     (case CARLA_ASSERT b
             [(PluginAudioData.count t = 0, ''count == 0''),
              (PluginAudioData.ports t = None, ''ports == nullptr''),
              (0 < newCount, ''newCount > 0'')] of
        Inl e \<Rightarrow> Inl e
      | Inr msgs \<Rightarrow>
          (if PluginAudioData.ports t \<noteq> None \<or> newCount = 0 then Inr (t, msgs)
           else if \<not> newOk then Inl (BadAlloc t)
           else Inr (t\<lparr>PluginAudioData.ports :=
                          Some (replicate (unat newCount) PluginAudioPort_init),
                        PluginAudioData.count := newCount\<rparr>, msgs)))"

definition PluginAudioPort_release :: "PluginAudioPort \<Rightarrow> PluginAudioPort" where
  "PluginAudioPort_release p =
     (if PluginAudioPort.port p \<noteq> None then p\<lparr>PluginAudioPort.port := None\<rparr> else p)"

definition PluginAudioData_clear :: "PluginAudioData \<Rightarrow> PluginAudioData fault + PluginAudioData" where
  "PluginAudioData_clear t =
     (case PluginAudioData.ports t of
        None \<Rightarrow> Inr (t\<lparr>PluginAudioData.count := 0\<rparr>)
      | Some ps \<Rightarrow>
          (case for_each_index 0 (unat (PluginAudioData.count t)) PluginAudioPort_release ps of
             Inl e \<Rightarrow> Inl e
           | Inr ps' \<Rightarrow> Inr (t\<lparr>PluginAudioData.ports := None, PluginAudioData.count := 0\<rparr>)))"

subsection \<open>CV ports\<close>

record PluginCVPort =
  rindex :: "32 word"
  param :: "32 word"
  port :: "handle option"

definition PluginCVPort_init :: PluginCVPort where
  "PluginCVPort_init = \<lparr>rindex = 0, param = 0, port = None\<rparr>"

record PluginCVData =
  count :: "32 word"
  ports :: "PluginCVPort list option"

definition PluginCVData_init :: PluginCVData where
  "PluginCVData_init = \<lparr>count = 0, ports = None\<rparr>"

definition PluginCVData_createNew ::
  "build \<Rightarrow> bool \<Rightarrow> 32 word \<Rightarrow> PluginCVData \<Rightarrow> (PluginCVData, PluginCVData) result" where
  "PluginCVData_createNew b newOk newCount t =
     (case CARLA_ASSERT b
             [(PluginCVData.count t = 0, ''count == 0''),
              (PluginCVData.ports t = None, ''ports == nullptr''),
              (0 < newCount, ''newCount > 0'')] of
        Inl e \<Rightarrow> Inl e
      | Inr msgs \<Rightarrow>
          (if PluginCVData.ports t \<noteq> None \<or> newCount = 0 then Inr (t, msgs)
           else if \<not> newOk then Inl (BadAlloc t)
           else Inr (t\<lparr>PluginCVData.ports :=
                          Some (replicate (unat newCount) PluginCVPort_init),
                        PluginCVData.count := newCount\<rparr>, msgs)))"

definition PluginCVPort_release :: "PluginCVPort \<Rightarrow> PluginCVPort" where
  "PluginCVPort_release p =
     (if PluginCVPort.port p \<noteq> None then p\<lparr>PluginCVPort.port := None\<rparr> else p)"

definition PluginCVData_clear :: "PluginCVData \<Rightarrow> PluginCVData fault + PluginCVData" where
  "PluginCVData_clear t =
     (case PluginCVData.ports t of
        None \<Rightarrow> Inr (t\<lparr>PluginCVData.count := 0\<rparr>)
      | Some ps \<Rightarrow>
          (case for_each_index 0 (unat (PluginCVData.count t)) PluginCVPort_release ps of
             Inl e \<Rightarrow> Inl e
           | Inr ps' \<Rightarrow> Inr (t\<lparr>PluginCVData.ports := None, PluginCVData.count := 0\<rparr>)))"

subsection \<open>Parameters\<close>

datatype SpecialParameterType =
    PARAMETER_SPECIAL_NULL
  | PARAMETER_SPECIAL_LATENCY
  | PARAMETER_SPECIAL_SAMPLE_RATE
  | PARAMETER_SPECIAL_LV2_FREEWHEEL
  | PARAMETER_SPECIAL_LV2_TIME

text \<open>
  \<^verbatim>\<open>ParameterData\<close> and \<^verbatim>\<open>ParameterRanges\<close> are declared outside this header:
  they are the type parameters \<open>'d\<close> and \<open>'r\<close>, and the value a default-constructed
  element has is an argument of \<open>createNew\<close>. \<^verbatim>\<open>new SpecialParameterType[n]\<close> leaves
  its elements uninitialised: an element is \<open>None\<close> until it is written.
\<close>

record ('d, 'r) PluginParameterData =
  count :: "32 word"
  data :: "'d list option"
  ranges :: "'r list option"
  special :: "SpecialParameterType option list option"

definition PluginParameterData_init :: "('d, 'r) PluginParameterData" where
  "PluginParameterData_init = \<lparr>count = 0, data = None, ranges = None, special = None\<rparr>"

text \<open>
  \<open>createNew\<close> allocates up to three arrays, one statement after the other; \<open>newOk\<close>
  says for each of them, in that order, whether its \<^verbatim>\<open>new\<close> succeeds. A throw
  leaves the assignments made before it in place.
\<close>

definition PluginParameterData_createNew ::
  "build \<Rightarrow> bool \<times> bool \<times> bool \<Rightarrow> 'd \<Rightarrow> 'r \<Rightarrow> 32 word \<Rightarrow> bool \<Rightarrow> ('d, 'r) PluginParameterData
     \<Rightarrow> (('d, 'r) PluginParameterData, ('d, 'r) PluginParameterData) result" where
  "PluginParameterData_createNew b newOk newData newRanges newCount withSpecial t =
     (case CARLA_ASSERT b
             [(PluginParameterData.count t = 0, ''count == 0''),
              (PluginParameterData.data t = None, ''data == nullptr''),
              (PluginParameterData.ranges t = None, ''ranges == nullptr''),
              (PluginParameterData.special t = None, ''special == nullptr''),
              (0 < newCount, ''newCount > 0'')] of
        Inl e \<Rightarrow> Inl e
      | Inr msgs \<Rightarrow>
          (if PluginParameterData.data t \<noteq> None \<or> PluginParameterData.ranges t \<noteq> None
              \<or> newCount = 0
           then Inr (t, msgs)
           else if \<not> fst newOk then Inl (BadAlloc t)
           else
             (let t1 = t\<lparr>PluginParameterData.data := Some (replicate (unat newCount) newData)\<rparr>
              in if \<not> fst (snd newOk) then Inl (BadAlloc t1)
                 else
                   (let t2 = t1\<lparr>PluginParameterData.ranges :=
                                   Some (replicate (unat newCount) newRanges),
                                 PluginParameterData.count := newCount\<rparr>
                    in if withSpecial
                       then (if \<not> snd (snd newOk) then Inl (BadAlloc t2)
                             else Inr (t2\<lparr>PluginParameterData.special :=
                                             Some (replicate (unat newCount) None)\<rparr>, msgs))
                       else Inr (t2, msgs)))))"

definition PluginParameterData_clear ::
  "('d, 'r) PluginParameterData
     \<Rightarrow> ('d, 'r) PluginParameterData fault + ('d, 'r) PluginParameterData" where
  "PluginParameterData_clear t =
     (let t1 = (if PluginParameterData.data t \<noteq> None
                then t\<lparr>PluginParameterData.data := None\<rparr> else t);
          t2 = (if PluginParameterData.ranges t1 \<noteq> None
                then t1\<lparr>PluginParameterData.ranges := None\<rparr> else t1);
          t3 = (if PluginParameterData.special t2 \<noteq> None
                then t2\<lparr>PluginParameterData.special := None\<rparr> else t2)
      in Inr (t3\<lparr>PluginParameterData.count := 0\<rparr>))"

text \<open>
  \<^verbatim>\<open>ParameterRanges::getFixedValue\<close> is defined outside this header: it is the
  argument \<open>fixedValue\<close>. The \<^verbatim>\<open>float\<close> values are only passed through, so their
  type is any type \<open>'f\<close> with a zero.
\<close>

definition PluginParameterData_getFixedValue ::
  "('r \<Rightarrow> 'f \<Rightarrow> 'f) \<Rightarrow> ('d, 'r) PluginParameterData \<Rightarrow> 32 word \<Rightarrow> 'f::zero
     \<Rightarrow> (('d, 'r) PluginParameterData, 'f) result" where
  "PluginParameterData_getFixedValue fixedValue t parameterId val =
     (if \<not> parameterId < PluginParameterData.count t
      then Inr (0, [''parameterId < count''])
      else (case PluginParameterData.ranges t of
              None \<Rightarrow> Inl NullDeref
            | Some rs \<Rightarrow>
                (if unat parameterId < length rs
                 then Inr (fixedValue (rs ! unat parameterId) val, [])
                 else Inl OutOfBounds)))"

subsection \<open>Programs\<close>

type_synonym ProgramName = "string option"

record PluginProgramData =
  count :: "32 word"
  current :: "32 word"
  names :: "ProgramName list option"

definition PluginProgramData_init :: PluginProgramData where
  "PluginProgramData_init = \<lparr>count = 0, current = - 1, names = None\<rparr>"

definition PluginProgramData_createNew ::
  "build \<Rightarrow> bool \<Rightarrow> 32 word \<Rightarrow> PluginProgramData \<Rightarrow> (PluginProgramData, PluginProgramData) result" where
  "PluginProgramData_createNew b newOk newCount t =
     (case CARLA_ASSERT b
             [(PluginProgramData.count t = 0, ''count == 0''),
              (sint (PluginProgramData.current t) = - 1, ''current == -1''),
              (PluginProgramData.names t = None, ''names == nullptr''),
              (0 < newCount, ''newCount > 0'')] of
        Inl e \<Rightarrow> Inl e
      | Inr msgs \<Rightarrow>
          (if PluginProgramData.names t \<noteq> None \<or> newCount = 0 then Inr (t, msgs)
           else if \<not> newOk then Inl (BadAlloc t)
           else Inr (t\<lparr>PluginProgramData.names := Some (replicate (unat newCount) None),
                        PluginProgramData.count := newCount\<rparr>, msgs)))"

definition ProgramName_release :: "ProgramName \<Rightarrow> ProgramName" where
  "ProgramName_release n = (if n \<noteq> None then None else n)"

definition PluginProgramData_clear ::
  "PluginProgramData \<Rightarrow> PluginProgramData fault + PluginProgramData" where
  "PluginProgramData_clear t =
     (case PluginProgramData.names t of
        None \<Rightarrow> Inr (t\<lparr>PluginProgramData.count := 0, PluginProgramData.current := - 1\<rparr>)
      | Some ns \<Rightarrow>
          (case for_each_index 0 (unat (PluginProgramData.count t)) ProgramName_release ns of
             Inl e \<Rightarrow> Inl e
           | Inr ns' \<Rightarrow> Inr (t\<lparr>PluginProgramData.names := None,
                                PluginProgramData.count := 0,
                                PluginProgramData.current := - 1\<rparr>)))"

subsection \<open>MIDI programs\<close>

record MidiProgramData =
  bank :: "32 word"
  program :: "32 word"
  name :: "string option"

record PluginMidiProgramData =
  count :: "32 word"
  current :: "32 word"
  data :: "MidiProgramData list option"

definition PluginMidiProgramData_init :: PluginMidiProgramData where
  "PluginMidiProgramData_init = \<lparr>count = 0, current = - 1, data = None\<rparr>"

definition PluginMidiProgramData_createNew ::
  "build \<Rightarrow> bool \<Rightarrow> 32 word \<Rightarrow> PluginMidiProgramData \<Rightarrow> (PluginMidiProgramData, PluginMidiProgramData) result" where
  "PluginMidiProgramData_createNew b newOk newCount t =
     (case CARLA_ASSERT b
             [(PluginMidiProgramData.count t = 0, ''count == 0''),
              (sint (PluginMidiProgramData.current t) = - 1, ''current == -1''),
              (PluginMidiProgramData.data t = None, ''data == nullptr''),
              (0 < newCount, ''newCount > 0'')] of
        Inl e \<Rightarrow> Inl e
      | Inr msgs \<Rightarrow>
          (if PluginMidiProgramData.data t \<noteq> None \<or> newCount = 0 then Inr (t, msgs)
           else if \<not> newOk then Inl (BadAlloc t)
           else Inr (t\<lparr>PluginMidiProgramData.data :=
                          Some (replicate (unat newCount) \<lparr>bank = 0, program = 0, name = None\<rparr>),
                        PluginMidiProgramData.count := newCount\<rparr>, msgs)))"

definition MidiProgramData_release :: "MidiProgramData \<Rightarrow> MidiProgramData" where
  "MidiProgramData_release d =
     (if MidiProgramData.name d \<noteq> None then d\<lparr>MidiProgramData.name := None\<rparr> else d)"

definition PluginMidiProgramData_clear ::
  "PluginMidiProgramData \<Rightarrow> PluginMidiProgramData fault + PluginMidiProgramData" where
  "PluginMidiProgramData_clear t =
     (case PluginMidiProgramData.data t of
        None \<Rightarrow> Inr (t\<lparr>PluginMidiProgramData.count := 0,
                        PluginMidiProgramData.current := - 1\<rparr>)
      | Some ds \<Rightarrow>
          (case for_each_index 0 (unat (PluginMidiProgramData.count t))
                  MidiProgramData_release ds of
             Inl e \<Rightarrow> Inl e
           | Inr ds' \<Rightarrow> Inr (t\<lparr>PluginMidiProgramData.data := None,
                                PluginMidiProgramData.count := 0,
                                PluginMidiProgramData.current := - 1\<rparr>)))"

text \<open>
  \<^verbatim>\<open>getCurrent\<close> asserts that \<open>current\<close> is in range and then reads
  \<^verbatim>\<open>data[current]\<close> whatever the assertion found. The cast
  \<^verbatim>\<open>static_cast<int32_t>(count)\<close> reads the same 32 bits as a signed number.
\<close>

definition PluginMidiProgramData_getCurrent ::
  "build \<Rightarrow> PluginMidiProgramData \<Rightarrow> (PluginMidiProgramData, MidiProgramData) result" where
  "PluginMidiProgramData_getCurrent b t =
     (case CARLA_ASSERT b
             [(0 \<le> sint (PluginMidiProgramData.current t)
                 \<and> sint (PluginMidiProgramData.current t) < sint (PluginMidiProgramData.count t),
               ''current >= 0 && current < static_cast<int32_t>(count)'')] of
        Inl e \<Rightarrow> Inl e
      | Inr msgs \<Rightarrow>
          (case PluginMidiProgramData.data t of
             None \<Rightarrow> Inl NullDeref
           | Some ds \<Rightarrow>
               (if 0 \<le> sint (PluginMidiProgramData.current t)
                     \<and> nat (sint (PluginMidiProgramData.current t)) < length ds
                then Inr (ds ! nat (sint (PluginMidiProgramData.current t)), msgs)
                else Inl OutOfBounds)))"

subsection \<open>Mutex and pooled queue\<close>

text \<open>
  Modelled from the spec: \<^verbatim>\<open>CarlaMutex\<close> is declared outside this header. The spec
  calls \<^verbatim>\<open>tryLock\<close> a "non-blocking lock attempt": it takes a free mutex and reports
  success, and reports failure on a mutex that is held, leaving it as it is.
  \<^verbatim>\<open>unlock\<close> releases the mutex. The state of a mutex is seen from the calling
  thread: free, held by the caller, or held by another thread.
\<close>

datatype CarlaMutex = Free | HeldBySelf | HeldByOther

datatype mutex_call = CallLock | CallTryLock | CallUnlock

definition CarlaMutex_tryLock :: "CarlaMutex \<Rightarrow> bool \<times> CarlaMutex" where
  "CarlaMutex_tryLock m = (case m of Free \<Rightarrow> (True, HeldBySelf) | _ \<Rightarrow> (False, m))"

definition CarlaMutex_unlock :: "CarlaMutex \<Rightarrow> CarlaMutex" where
  "CarlaMutex_unlock m = Free"

text \<open>
  Modelled from the spec: \<^verbatim>\<open>RtLinkedList\<close> is declared outside this header. A queue
  is the list of its payloads, oldest first. The spec on \<^verbatim>\<open>append\<close>: "copies the item
  into a free node; fails (no-op, event dropped) if the arena is exhausted". On
  \<^verbatim>\<open>spliceAppend\<close>: "moves an entire queue's nodes onto the tail of another",
  and it "leaves the source queue empty with the destination queue length increased by
  exactly N". Neither takes a lock ("non-blocking, non-locking append").
\<close>

definition RtLinkedList_append :: "nat \<Rightarrow> 'a \<Rightarrow> 'a list \<Rightarrow> 'a list" where
  "RtLinkedList_append freeNodes x q = (if 0 < freeNodes then q @ [x] else q)"

definition RtLinkedList_spliceAppend :: "'a list \<Rightarrow> 'a list \<Rightarrow> 'a list \<times> 'a list" where
  "RtLinkedList_spliceAppend src dst = ([], dst @ src)"

subsection \<open>Post-RT events\<close>

datatype PluginPostRtEventType =
    kPluginPostRtEventNull
  | kPluginPostRtEventDebug
  | kPluginPostRtEventParameterChange
  | kPluginPostRtEventProgramChange
  | kPluginPostRtEventMidiProgramChange
  | kPluginPostRtEventNoteOn
  | kPluginPostRtEventNoteOff

record 'f PluginPostRtEvent =
  type :: PluginPostRtEventType
  value1 :: "32 word"
  value2 :: "32 word"
  value3 :: 'f

text \<open>
  \<open>data\<close> and \<open>dataPendingRT\<close> draw their nodes from the one pool \<open>dataPool\<close>, built
  with \<^verbatim>\<open>dataPool(128, 128)\<close>; the field holds the number of nodes of the pool.
  Each member function returns the object after the call and the calls it made on
  \<open>mutex\<close>, in order.
\<close>

record 'f PostRtEvents =
  mutex :: CarlaMutex
  dataPool :: nat
  data :: "'f PluginPostRtEvent list"
  dataPendingRT :: "'f PluginPostRtEvent list"

definition PostRtEvents_init :: "'f PostRtEvents" where
  "PostRtEvents_init = \<lparr>mutex = Free, dataPool = 128, data = [], dataPendingRT = []\<rparr>"

definition PostRtEvents_appendRT ::
  "'f PluginPostRtEvent \<Rightarrow> 'f PostRtEvents \<Rightarrow> 'f PostRtEvents \<times> mutex_call list" where
  "PostRtEvents_appendRT event s =
     (s\<lparr>dataPendingRT :=
          RtLinkedList_append
            (dataPool s - (length (PostRtEvents.data s) + length (dataPendingRT s)))
            event (dataPendingRT s)\<rparr>, [])"

definition PostRtEvents_trySplice :: "'f PostRtEvents \<Rightarrow> 'f PostRtEvents \<times> mutex_call list" where
  "PostRtEvents_trySplice s =
     (case CarlaMutex_tryLock (mutex s) of
        (True, m1) \<Rightarrow>
          (case RtLinkedList_spliceAppend (dataPendingRT s) (PostRtEvents.data s) of
             (src, dst) \<Rightarrow>
               (s\<lparr>mutex := CarlaMutex_unlock m1, dataPendingRT := src, PostRtEvents.data := dst\<rparr>,
                [CallTryLock, CallUnlock]))
      | (False, m1) \<Rightarrow> (s\<lparr>mutex := m1\<rparr>, [CallTryLock]))"

text \<open>
  What the real-time side does to the report queue, one step at a time: it appends an
  event, or the splice is attempted; between two steps another thread may take or
  release the mutex.
\<close>

datatype 'f rt_step = AppendRT "'f PluginPostRtEvent" | TrySplice | OtherThread CarlaMutex

fun rt_run :: "'f rt_step list \<Rightarrow> 'f PostRtEvents \<Rightarrow> 'f PostRtEvents \<times> mutex_call list" where
  "rt_run [] s = (s, [])"
| "rt_run (AppendRT e # steps) s =
     (case PostRtEvents_appendRT e s of
        (s1, calls) \<Rightarrow> (case rt_run steps s1 of (s2, calls2) \<Rightarrow> (s2, calls @ calls2)))"
| "rt_run (TrySplice # steps) s =
     (case PostRtEvents_trySplice s of
        (s1, calls) \<Rightarrow> (case rt_run steps s1 of (s2, calls2) \<Rightarrow> (s2, calls @ calls2)))"
| "rt_run (OtherThread m # steps) s = rt_run steps (s\<lparr>mutex := m\<rparr>)"

subsection \<open>The runtime context and its destructor\<close>

text \<open>
  \<^verbatim>\<open>CarlaEngineClient\<close> and \<^verbatim>\<open>CustomData\<close> are declared outside this header; the
  records have the members the destructor uses. \<^verbatim>\<open>clearBuffers\<close> is declared here and
  defined elsewhere: it is the argument \<open>clearBuffers\<close>, acting on the buffer state
  \<open>buffers\<close> (latency buffers and port tables) of type \<open>'b\<close>. A fault inside
  \<open>prog.clear()\<close> or \<open>midiprog.clear()\<close> is a fault of the destructor, on the
  context holding that table.
\<close>

record CarlaEngineClient =
  isActive :: bool

record CustomData =
  type :: "string option"
  key :: "string option"
  "value" :: "string option"

record 'b CarlaPluginProtectedData =
  client :: "CarlaEngineClient option"
  needsReset :: bool
  lib :: "handle option"
  uiLib :: "handle option"
  name :: "string option"
  filename :: "string option"
  iconName :: "string option"
  "identifier" :: "string option"
  buffers :: 'b
  prog :: PluginProgramData
  midiprog :: PluginMidiProgramData
  custom :: "CustomData list"
  masterMutex :: CarlaMutex
  singleMutex :: CarlaMutex

text \<open>
  Modelled from the spec: \<^verbatim>\<open>libClose\<close> is declared here and defined elsewhere; at
  destruction "any loaded library handle is closed".
\<close>

definition libClose :: "'b CarlaPluginProtectedData \<Rightarrow> 'b CarlaPluginProtectedData" where
  "libClose p = p\<lparr>lib := None\<rparr>"

definition delete_string :: "string option \<Rightarrow> string option" where
  "delete_string s = (if s \<noteq> None then None else s)"

fun CustomData_release :: "CustomData list \<Rightarrow> CustomData list \<times> string list" where
  "CustomData_release [] = ([], [])"
| "CustomData_release (c # cs) =
     (case CustomData_release cs of
        (cs', msgs) \<Rightarrow>
          (c\<lparr>CustomData.type := None, key := None, value := None\<rparr> # cs',
           (if CustomData.type c \<noteq> None then [] else [''cData.type != nullptr''])
           @ (if key c \<noteq> None then [] else [''cData.key != nullptr''])
           @ (if CustomData.value c \<noteq> None then [] else [''cData.value != nullptr''])
           @ msgs))"

definition CarlaPluginProtectedData_destroy ::
  "build \<Rightarrow> ('b \<Rightarrow> 'b) \<Rightarrow> 'b CarlaPluginProtectedData
     \<Rightarrow> ('b CarlaPluginProtectedData, 'b CarlaPluginProtectedData) result" where
  "CarlaPluginProtectedData_destroy b clearBuffers p =
     (let log1 = CARLA_SAFE_ASSERT (\<not> needsReset p) ''! needsReset'';
          p1 = p\<lparr>name := delete_string (CarlaPluginProtectedData.name p),
                 filename := delete_string (filename p),
                 iconName := delete_string (iconName p),
                 identifier := delete_string (identifier p)\<rparr>;
          lockMaster = CarlaMutex_tryLock (masterMutex p1);
          lockSingle = CarlaMutex_tryLock (singleMutex p1);
          log2 = CARLA_SAFE_ASSERT (\<not> fst lockMaster) ''! lockMaster''
                 @ CARLA_SAFE_ASSERT (\<not> fst lockSingle) ''! lockSingle'';
          p2 = p1\<lparr>masterMutex := snd lockMaster, singleMutex := snd lockSingle\<rparr>;
          log3 = (case client p2 of
                    None \<Rightarrow> []
                  | Some c \<Rightarrow> (if isActive c then [''client->isActive()''] else []));
          p3 = (case client p2 of
                  None \<Rightarrow> p2
                | Some c \<Rightarrow> p2\<lparr>buffers := clearBuffers (buffers p2), client := None\<rparr>);
          released = CustomData_release (custom p3)
      in case PluginProgramData_clear (prog p3) of
           Inl e \<Rightarrow> Inl (map_fault (\<lambda>x. p3\<lparr>prog := x\<rparr>) e)
         | Inr prog' \<Rightarrow>
             (case PluginMidiProgramData_clear (midiprog p3) of
                Inl e \<Rightarrow> Inl (map_fault (\<lambda>x. p3\<lparr>prog := prog', midiprog := x\<rparr>) e)
              | Inr midiprog' \<Rightarrow>
                  (let p4 = p3\<lparr>prog := prog', midiprog := midiprog', custom := []\<rparr>;
                       p5 = p4\<lparr>masterMutex := CarlaMutex_unlock (masterMutex p4),
                                singleMutex := CarlaMutex_unlock (singleMutex p4)\<rparr>;
                       p6 = (if lib p5 \<noteq> None then libClose p5 else p5)
                   in case CARLA_ASSERT b [(uiLib p6 = None, ''uiLib == nullptr'')] of
                        Inl e \<Rightarrow> Inl e
                      | Inr log4 \<Rightarrow> Inr (p6, log1 @ log2 @ log3 @ snd released @ log4))))"

subsection \<open>Well-formed tables\<close>

text \<open>
  A table is in bounds when its array, if allocated, holds at least \<open>count\<close> elements:
  then no loop below \<open>count\<close> leaves the allocation.
\<close>

definition PluginAudioData_inBounds :: "PluginAudioData \<Rightarrow> bool" where
  "PluginAudioData_inBounds t =
     (case PluginAudioData.ports t of
        None \<Rightarrow> True
      | Some ps \<Rightarrow> unat (PluginAudioData.count t) \<le> length ps)"

definition PluginCVData_inBounds :: "PluginCVData \<Rightarrow> bool" where
  "PluginCVData_inBounds t =
     (case PluginCVData.ports t of
        None \<Rightarrow> True
      | Some ps \<Rightarrow> unat (PluginCVData.count t) \<le> length ps)"

definition PluginProgramData_inBounds :: "PluginProgramData \<Rightarrow> bool" where
  "PluginProgramData_inBounds t =
     (case PluginProgramData.names t of
        None \<Rightarrow> True
      | Some ns \<Rightarrow> unat (PluginProgramData.count t) \<le> length ns)"

definition PluginMidiProgramData_inBounds :: "PluginMidiProgramData \<Rightarrow> bool" where
  "PluginMidiProgramData_inBounds t =
     (case PluginMidiProgramData.data t of
        None \<Rightarrow> True
      | Some ds \<Rightarrow> unat (PluginMidiProgramData.count t) \<le> length ds)"

definition PluginParameterData_inBounds :: "('d, 'r) PluginParameterData \<Rightarrow> bool" where
  "PluginParameterData_inBounds t =
     ((case PluginParameterData.data t of
         None \<Rightarrow> True
       | Some ds \<Rightarrow> unat (PluginParameterData.count t) \<le> length ds)
      \<and> (case PluginParameterData.ranges t of
            None \<Rightarrow> True
          | Some rs \<Rightarrow> unat (PluginParameterData.count t) \<le> length rs)
      \<and> (case PluginParameterData.special t of
            None \<Rightarrow> True
          | Some sp \<Rightarrow> unat (PluginParameterData.count t) \<le> length sp))"






subsection \<open>Sample objects\<close>

text \<open>Allocated tables with some entries in use; the theorems below are run on them.\<close>

definition sample_audio :: PluginAudioData where
  "sample_audio =
     \<lparr>PluginAudioData.count = 2,
      PluginAudioData.ports =
        Some [\<lparr>PluginAudioPort.rindex = 0, PluginAudioPort.port = Some 7\<rparr>,
              \<lparr>PluginAudioPort.rindex = 1, PluginAudioPort.port = None\<rparr>]\<rparr>"

definition sample_cv :: PluginCVData where
  "sample_cv =
     \<lparr>PluginCVData.count = 1,
      PluginCVData.ports =
        Some [\<lparr>PluginCVPort.rindex = 4, PluginCVPort.param = 0, PluginCVPort.port = Some 9\<rparr>]\<rparr>"

definition sample_param :: "(nat, int \<times> int) PluginParameterData" where
  "sample_param =
     \<lparr>PluginParameterData.count = 2,
      PluginParameterData.data = Some [0, 1],
      PluginParameterData.ranges = Some [(0, 10), (- 5, 5)],
      PluginParameterData.special = None\<rparr>"

definition sample_prog :: PluginProgramData where
  "sample_prog =
     \<lparr>PluginProgramData.count = 2,
      PluginProgramData.current = 1,
      PluginProgramData.names = Some [Some ''Piano'', None]\<rparr>"

definition sample_midiprog :: PluginMidiProgramData where
  "sample_midiprog =
     \<lparr>PluginMidiProgramData.count = 2,
      PluginMidiProgramData.current = 0,
      PluginMidiProgramData.data =
        Some [\<lparr>bank = 0, program = 0, name = Some ''Lead''\<rparr>,
              \<lparr>bank = 0, program = 1, name = None\<rparr>]\<rparr>"

text \<open>A stand-in for \<^verbatim>\<open>ParameterRanges::getFixedValue\<close>: the value clamped to the range.\<close>

definition sample_fixedValue :: "int \<times> int \<Rightarrow> int \<Rightarrow> int" where
  "sample_fixedValue rg v = max (fst rg) (min (snd rg) v)"

definition sample_noteOn :: "int PluginPostRtEvent" where
  "sample_noteOn =
     \<lparr>PluginPostRtEvent.type = kPluginPostRtEventNoteOn, value1 = 0, value2 = 60, value3 = 100\<rparr>"

definition sample_noteOff :: "int PluginPostRtEvent" where
  "sample_noteOff =
     \<lparr>PluginPostRtEvent.type = kPluginPostRtEventNoteOff, value1 = 0, value2 = 60, value3 = 0\<rparr>"

definition sample_paramChange :: "int PluginPostRtEvent" where
  "sample_paramChange =
     \<lparr>PluginPostRtEvent.type = kPluginPostRtEventParameterChange,
      value1 = 3, value2 = 0, value3 = 7\<rparr>"

text \<open>A report queue with one delivered event and two pending ones.\<close>

definition sample_queue :: "int PostRtEvents" where
  "sample_queue =
     \<lparr>mutex = Free, dataPool = 128,
      PostRtEvents.data = [sample_noteOn],
      dataPendingRT = [sample_paramChange, sample_noteOff]\<rparr>"

text \<open>
  A runtime context with no client, no strings, no custom data and empty program
  tables, given the state of its two mutexes.
\<close>

definition sample_context :: "CarlaMutex \<Rightarrow> CarlaMutex \<Rightarrow> unit CarlaPluginProtectedData" where
  "sample_context master single =
     \<lparr>client = None, needsReset = False, lib = None, uiLib = None,
      CarlaPluginProtectedData.name = None, filename = None, iconName = None,
      identifier = None, buffers = (),
      prog = PluginProgramData_init, midiprog = PluginMidiProgramData_init,
      custom = [], masterMutex = master, singleMutex = single\<rparr>"

section \<open>Properties\<close>

subsection \<open>Assertions and loops\<close>

lemma CARLA_ASSERT_Release:
  "CARLA_ASSERT Release cs = Inr (map snd (filter (\<lambda>c. \<not> fst c) cs))"
  by (induction cs) auto

lemma CARLA_ASSERT_Debug:
  "CARLA_ASSERT Debug cs = (if list_all fst cs then Inr [] else Inl AssertAbort)"
  by (induction cs) auto

lemma for_each_index_in_bounds:
  "n \<le> length arr \<Longrightarrow>
     \<exists>arr'. for_each_index i n body arr = Inr arr' \<and> length arr' = length arr"
proof (induction i n body arr rule: for_each_index.induct)
  case (1 i n body arr)
  show ?case
  proof (cases "i < n")
    case True
    with "1.prems" have "i < length arr" by simp
    moreover from "1.prems" have "n \<le> length (arr[i := body (arr ! i)])" by simp
    ultimately show ?thesis
      using True "1.IH" by (subst for_each_index.simps) simp
  next
    case False
    then show ?thesis by (subst for_each_index.simps) simp
  qed
qed

subsection \<open>What \<open>clear\<close> returns\<close>

lemma PluginAudioData_clear_result:
  assumes "PluginAudioData_inBounds t"
  shows "PluginAudioData_clear t = Inr PluginAudioData_init"
proof (cases "PluginAudioData.ports t")
  case None
  then show ?thesis by (simp add: PluginAudioData_clear_def PluginAudioData_init_def)
next
  case (Some ps)
  with assms have "unat (PluginAudioData.count t) \<le> length ps"
    by (simp add: PluginAudioData_inBounds_def)
  then obtain ps' where
    "for_each_index 0 (unat (PluginAudioData.count t)) PluginAudioPort_release ps
       = (Inr ps' :: PluginAudioData fault + PluginAudioPort list)"
    using for_each_index_in_bounds by blast
  with Some show ?thesis by (simp add: PluginAudioData_clear_def PluginAudioData_init_def)
qed

lemma PluginCVData_clear_result:
  assumes "PluginCVData_inBounds t"
  shows "PluginCVData_clear t = Inr PluginCVData_init"
proof (cases "PluginCVData.ports t")
  case None
  then show ?thesis by (simp add: PluginCVData_clear_def PluginCVData_init_def)
next
  case (Some ps)
  with assms have "unat (PluginCVData.count t) \<le> length ps"
    by (simp add: PluginCVData_inBounds_def)
  then obtain ps' where
    "for_each_index 0 (unat (PluginCVData.count t)) PluginCVPort_release ps
       = (Inr ps' :: PluginCVData fault + PluginCVPort list)"
    using for_each_index_in_bounds by blast
  with Some show ?thesis by (simp add: PluginCVData_clear_def PluginCVData_init_def)
qed

lemma PluginProgramData_clear_result:
  assumes "PluginProgramData_inBounds t"
  shows "PluginProgramData_clear t = Inr PluginProgramData_init"
proof (cases "PluginProgramData.names t")
  case None
  then show ?thesis by (simp add: PluginProgramData_clear_def PluginProgramData_init_def)
next
  case (Some ns)
  with assms have "unat (PluginProgramData.count t) \<le> length ns"
    by (simp add: PluginProgramData_inBounds_def)
  then obtain ns' where
    "for_each_index 0 (unat (PluginProgramData.count t)) ProgramName_release ns
       = (Inr ns' :: PluginProgramData fault + ProgramName list)"
    using for_each_index_in_bounds by blast
  with Some show ?thesis by (simp add: PluginProgramData_clear_def PluginProgramData_init_def)
qed

lemma PluginMidiProgramData_clear_result:
  assumes "PluginMidiProgramData_inBounds t"
  shows "PluginMidiProgramData_clear t = Inr PluginMidiProgramData_init"
proof (cases "PluginMidiProgramData.data t")
  case None
  then show ?thesis
    by (simp add: PluginMidiProgramData_clear_def PluginMidiProgramData_init_def)
next
  case (Some ds)
  with assms have "unat (PluginMidiProgramData.count t) \<le> length ds"
    by (simp add: PluginMidiProgramData_inBounds_def)
  then obtain ds' where
    "for_each_index 0 (unat (PluginMidiProgramData.count t)) MidiProgramData_release ds
       = (Inr ds' :: PluginMidiProgramData fault + MidiProgramData list)"
    using for_each_index_in_bounds by blast
  with Some show ?thesis
    by (simp add: PluginMidiProgramData_clear_def PluginMidiProgramData_init_def)
qed

lemma PluginParameterData_clear_result:
  "PluginParameterData_clear t = Inr PluginParameterData_init"
  by (simp add: PluginParameterData_clear_def PluginParameterData_init_def Let_def)

lemma init_inBounds:
  "PluginAudioData_inBounds PluginAudioData_init"
  "PluginCVData_inBounds PluginCVData_init"
  "PluginProgramData_inBounds PluginProgramData_init"
  "PluginMidiProgramData_inBounds PluginMidiProgramData_init"
  "PluginParameterData_inBounds PluginParameterData_init"
  by (simp_all add: PluginAudioData_inBounds_def PluginAudioData_init_def
        PluginCVData_inBounds_def PluginCVData_init_def
        PluginProgramData_inBounds_def PluginProgramData_init_def
        PluginMidiProgramData_inBounds_def PluginMidiProgramData_init_def
        PluginParameterData_inBounds_def PluginParameterData_init_def)

text \<open>
  C5. After \<open>clear()\<close> the count of a table is 0 and every array pointer of it is null,
  and in the program and MIDI-program tables \<open>current\<close> is -1; a second \<open>clear()\<close>
  returns the cleared table as it is. This holds for the audio, CV, parameter, program
  and MIDI-program tables, from every state in which the allocated array holds at least
  \<open>count\<close> elements (the parameter table's \<open>clear\<close> has no loop and needs no such
  condition).
\<close>

theorem clear_resets_table:
  assumes "PluginAudioData_inBounds a" and "PluginCVData_inBounds c"
    and "PluginProgramData_inBounds p" and "PluginMidiProgramData_inBounds m"
  shows "(\<exists>a'. PluginAudioData_clear a = Inr a'
            \<and> PluginAudioData.count a' = 0 \<and> PluginAudioData.ports a' = None
            \<and> PluginAudioData_clear a' = Inr a')
       \<and> (\<exists>c'. PluginCVData_clear c = Inr c'
            \<and> PluginCVData.count c' = 0 \<and> PluginCVData.ports c' = None
            \<and> PluginCVData_clear c' = Inr c')
       \<and> (\<exists>q'. PluginParameterData_clear q = Inr q'
            \<and> PluginParameterData.count q' = 0 \<and> PluginParameterData.data q' = None
            \<and> PluginParameterData.ranges q' = None \<and> PluginParameterData.special q' = None
            \<and> PluginParameterData_clear q' = Inr q')
       \<and> (\<exists>p'. PluginProgramData_clear p = Inr p'
            \<and> PluginProgramData.count p' = 0 \<and> PluginProgramData.names p' = None
            \<and> sint (PluginProgramData.current p') = - 1
            \<and> PluginProgramData_clear p' = Inr p')
       \<and> (\<exists>m'. PluginMidiProgramData_clear m = Inr m'
            \<and> PluginMidiProgramData.count m' = 0 \<and> PluginMidiProgramData.data m' = None
            \<and> sint (PluginMidiProgramData.current m') = - 1
            \<and> PluginMidiProgramData_clear m' = Inr m')"
proof (intro conjI)
  show "\<exists>a'. PluginAudioData_clear a = Inr a'
            \<and> PluginAudioData.count a' = 0 \<and> PluginAudioData.ports a' = None
            \<and> PluginAudioData_clear a' = Inr a'"
    using PluginAudioData_clear_result [OF assms(1)]
      PluginAudioData_clear_result [OF init_inBounds(1)]
    by (simp add: PluginAudioData_init_def)
  show "\<exists>c'. PluginCVData_clear c = Inr c'
            \<and> PluginCVData.count c' = 0 \<and> PluginCVData.ports c' = None
            \<and> PluginCVData_clear c' = Inr c'"
    using PluginCVData_clear_result [OF assms(2)]
      PluginCVData_clear_result [OF init_inBounds(2)]
    by (simp add: PluginCVData_init_def)
  show "\<exists>q'. PluginParameterData_clear q = Inr q'
            \<and> PluginParameterData.count q' = 0 \<and> PluginParameterData.data q' = None
            \<and> PluginParameterData.ranges q' = None \<and> PluginParameterData.special q' = None
            \<and> PluginParameterData_clear q' = Inr q'"
    by (simp add: PluginParameterData_clear_result) (simp add: PluginParameterData_init_def)
  show "\<exists>p'. PluginProgramData_clear p = Inr p'
            \<and> PluginProgramData.count p' = 0 \<and> PluginProgramData.names p' = None
            \<and> sint (PluginProgramData.current p') = - 1
            \<and> PluginProgramData_clear p' = Inr p'"
    using PluginProgramData_clear_result [OF assms(3)]
      PluginProgramData_clear_result [OF init_inBounds(3)]
    by (simp add: PluginProgramData_init_def)
  show "\<exists>m'. PluginMidiProgramData_clear m = Inr m'
            \<and> PluginMidiProgramData.count m' = 0 \<and> PluginMidiProgramData.data m' = None
            \<and> sint (PluginMidiProgramData.current m') = - 1
            \<and> PluginMidiProgramData_clear m' = Inr m'"
    using PluginMidiProgramData_clear_result [OF assms(4)]
      PluginMidiProgramData_clear_result [OF init_inBounds(4)]
    by (simp add: PluginMidiProgramData_init_def)
qed


theorem clear_resets_table_witness:
  "PluginAudioData_inBounds sample_audio \<and> PluginCVData_inBounds sample_cv
   \<and> PluginProgramData_inBounds sample_prog \<and> PluginMidiProgramData_inBounds sample_midiprog
   \<and> (\<exists>a'. PluginAudioData_clear sample_audio = Inr a'
          \<and> PluginAudioData.count a' = 0 \<and> PluginAudioData.ports a' = None
          \<and> PluginAudioData_clear a' = Inr a')
   \<and> (\<exists>q'. PluginParameterData_clear sample_param = Inr q'
          \<and> PluginParameterData.count q' = 0 \<and> PluginParameterData.data q' = None
          \<and> PluginParameterData.ranges q' = None \<and> PluginParameterData.special q' = None
          \<and> PluginParameterData_clear q' = Inr q')
   \<and> (\<exists>m'. PluginMidiProgramData_clear sample_midiprog = Inr m'
          \<and> PluginMidiProgramData.count m' = 0 \<and> PluginMidiProgramData.data m' = None
          \<and> sint (PluginMidiProgramData.current m') = - 1
          \<and> PluginMidiProgramData_clear m' = Inr m')"
proof -
  have a: "PluginAudioData_inBounds sample_audio"
    by (simp add: PluginAudioData_inBounds_def sample_audio_def)
  have c: "PluginCVData_inBounds sample_cv"
    by (simp add: PluginCVData_inBounds_def sample_cv_def)
  have p: "PluginProgramData_inBounds sample_prog"
    by (simp add: PluginProgramData_inBounds_def sample_prog_def)
  have m: "PluginMidiProgramData_inBounds sample_midiprog"
    by (simp add: PluginMidiProgramData_inBounds_def sample_midiprog_def)
  from clear_resets_table [OF a c p m, where q = sample_param] a c p m
  show ?thesis by blast
qed

subsection \<open>What \<open>createNew\<close> returns on an idle table\<close>



















subsection \<open>\<open>createNew\<close> on an allocated table\<close>

lemma PluginAudioData_createNew_allocated:
  "PluginAudioData.ports t \<noteq> None \<Longrightarrow>
     (\<exists>msgs. PluginAudioData_createNew Release newOk n t = Inr (t, msgs) \<and> msgs \<noteq> [])
     \<and> PluginAudioData_createNew Debug newOk n t = Inl AssertAbort"
  by (auto simp add: PluginAudioData_createNew_def)

lemma PluginCVData_createNew_allocated:
  "PluginCVData.ports t \<noteq> None \<Longrightarrow>
     (\<exists>msgs. PluginCVData_createNew Release newOk n t = Inr (t, msgs) \<and> msgs \<noteq> [])
     \<and> PluginCVData_createNew Debug newOk n t = Inl AssertAbort"
  by (auto simp add: PluginCVData_createNew_def)

lemma PluginProgramData_createNew_allocated:
  "PluginProgramData.names t \<noteq> None \<Longrightarrow>
     (\<exists>msgs. PluginProgramData_createNew Release newOk n t = Inr (t, msgs) \<and> msgs \<noteq> [])
     \<and> PluginProgramData_createNew Debug newOk n t = Inl AssertAbort"
  by (auto simp add: PluginProgramData_createNew_def)

lemma PluginMidiProgramData_createNew_allocated:
  "PluginMidiProgramData.data t \<noteq> None \<Longrightarrow>
     (\<exists>msgs. PluginMidiProgramData_createNew Release newOk n t = Inr (t, msgs) \<and> msgs \<noteq> [])
     \<and> PluginMidiProgramData_createNew Debug newOk n t = Inl AssertAbort"
  by (auto simp add: PluginMidiProgramData_createNew_def)

lemma PluginParameterData_createNew_allocated:
  "PluginParameterData.data t \<noteq> None \<or> PluginParameterData.ranges t \<noteq> None \<Longrightarrow>
     (\<exists>msgs. PluginParameterData_createNew Release newOk d r n w t = Inr (t, msgs) \<and> msgs \<noteq> [])
     \<and> PluginParameterData_createNew Debug newOk d r n w t = Inl AssertAbort"
  by (auto simp add: PluginParameterData_createNew_def)

text \<open>
  C7. On a table that is already allocated (array pointer non-null; for the parameter
  table \<open>data\<close> or \<open>ranges\<close> non-null), \<open>createNew\<close> with any \<open>newCount\<close> changes
  nothing: in a release build it returns the table as it was and reports the failed
  assertion, in a debug build the assertion stops the call. No allocation is attempted,
  so the outcome does not depend on the heap. This holds for the audio, CV, parameter,
  program and MIDI-program tables.
\<close>

theorem createNew_allocated_noop:
  assumes "PluginAudioData.ports a \<noteq> None" and "PluginCVData.ports c \<noteq> None"
    and "PluginParameterData.data q \<noteq> None \<or> PluginParameterData.ranges q \<noteq> None"
    and "PluginProgramData.names p \<noteq> None" and "PluginMidiProgramData.data m \<noteq> None"
  shows "((\<exists>msgs. PluginAudioData_createNew Release newOk n a = Inr (a, msgs) \<and> msgs \<noteq> [])
          \<and> PluginAudioData_createNew Debug newOk n a = Inl AssertAbort)
       \<and> ((\<exists>msgs. PluginCVData_createNew Release newOk n c = Inr (c, msgs) \<and> msgs \<noteq> [])
          \<and> PluginCVData_createNew Debug newOk n c = Inl AssertAbort)
       \<and> ((\<exists>msgs. PluginParameterData_createNew Release newOks d r n w q = Inr (q, msgs)
                 \<and> msgs \<noteq> [])
          \<and> PluginParameterData_createNew Debug newOks d r n w q = Inl AssertAbort)
       \<and> ((\<exists>msgs. PluginProgramData_createNew Release newOk n p = Inr (p, msgs) \<and> msgs \<noteq> [])
          \<and> PluginProgramData_createNew Debug newOk n p = Inl AssertAbort)
       \<and> ((\<exists>msgs. PluginMidiProgramData_createNew Release newOk n m = Inr (m, msgs)
                 \<and> msgs \<noteq> [])
          \<and> PluginMidiProgramData_createNew Debug newOk n m = Inl AssertAbort)"
  using PluginAudioData_createNew_allocated [OF assms(1)]
    PluginCVData_createNew_allocated [OF assms(2)]
    PluginParameterData_createNew_allocated [OF assms(3)]
    PluginProgramData_createNew_allocated [OF assms(4)]
    PluginMidiProgramData_createNew_allocated [OF assms(5)]
  by blast

theorem createNew_allocated_noop_witness:
  "PluginAudioData.ports sample_audio \<noteq> None \<and> PluginCVData.ports sample_cv \<noteq> None
   \<and> PluginParameterData.data sample_param \<noteq> None
   \<and> PluginParameterData.ranges sample_param \<noteq> None
   \<and> PluginProgramData.names sample_prog \<noteq> None
   \<and> PluginMidiProgramData.data sample_midiprog \<noteq> None
   \<and> (\<exists>msgs. PluginAudioData_createNew Release True 4 sample_audio = Inr (sample_audio, msgs)
          \<and> msgs \<noteq> [])
   \<and> PluginAudioData_createNew Debug True 4 sample_audio = Inl AssertAbort
   \<and> (\<exists>msgs. PluginParameterData_createNew Release (True, False, True) 0 (0, 1) 4 True
                sample_param
                = Inr (sample_param, msgs) \<and> msgs \<noteq> [])
   \<and> PluginParameterData_createNew Debug (True, False, True) 0 (0, 1) 4 True sample_param
       = Inl AssertAbort"
proof -
  have a: "PluginAudioData.ports sample_audio \<noteq> None" by (simp add: sample_audio_def)
  have c: "PluginCVData.ports sample_cv \<noteq> None" by (simp add: sample_cv_def)
  have q: "PluginParameterData.data sample_param \<noteq> None
             \<or> PluginParameterData.ranges sample_param \<noteq> None"
    by (simp add: sample_param_def)
  have p: "PluginProgramData.names sample_prog \<noteq> None" by (simp add: sample_prog_def)
  have m: "PluginMidiProgramData.data sample_midiprog \<noteq> None"
    by (simp add: sample_midiprog_def)
  have q': "PluginParameterData.data sample_param \<noteq> None
              \<and> PluginParameterData.ranges sample_param \<noteq> None"
    by (simp add: sample_param_def)
  from createNew_allocated_noop
         [OF a c q p m, where newOk = True and n = 4 and newOks = "(True, False, True)"
            and d = 0 and r = "(0, 1)" and w = True]
  show ?thesis using a c q' p m by blast
qed

subsection \<open>\<open>createNew\<close> with a count of zero\<close>

text \<open>
  C10 (as the code has it). On an idle table \<open>createNew(0)\<close> allocates nothing, whatever
  the heap could give. In a release build it returns the idle table unchanged and
  reports the failed assertion \<open>newCount > 0\<close>; in a debug build that assertion stops
  the call. This holds for the audio, CV, parameter, program and MIDI-program tables.
\<close>

theorem createNew_zero_idle:
  "(PluginAudioData_createNew Release newOk 0 PluginAudioData_init
      = Inr (PluginAudioData_init, [''newCount > 0''])
    \<and> PluginAudioData_createNew Debug newOk 0 PluginAudioData_init = Inl AssertAbort)
   \<and> (PluginCVData_createNew Release newOk 0 PluginCVData_init
      = Inr (PluginCVData_init, [''newCount > 0''])
    \<and> PluginCVData_createNew Debug newOk 0 PluginCVData_init = Inl AssertAbort)
   \<and> (PluginParameterData_createNew Release newOks d r 0 w PluginParameterData_init
      = Inr (PluginParameterData_init, [''newCount > 0''])
    \<and> PluginParameterData_createNew Debug newOks d r 0 w PluginParameterData_init
      = Inl AssertAbort)
   \<and> (PluginProgramData_createNew Release newOk 0 PluginProgramData_init
      = Inr (PluginProgramData_init, [''newCount > 0''])
    \<and> PluginProgramData_createNew Debug newOk 0 PluginProgramData_init = Inl AssertAbort)
   \<and> (PluginMidiProgramData_createNew Release newOk 0 PluginMidiProgramData_init
      = Inr (PluginMidiProgramData_init, [''newCount > 0''])
    \<and> PluginMidiProgramData_createNew Debug newOk 0 PluginMidiProgramData_init
      = Inl AssertAbort)"
proof (intro conjI)
  show "PluginAudioData_createNew Release newOk 0 PluginAudioData_init
          = Inr (PluginAudioData_init, [''newCount > 0''])"
    and "PluginAudioData_createNew Debug newOk 0 PluginAudioData_init = Inl AssertAbort"
    by (simp_all add: PluginAudioData_createNew_def PluginAudioData_init_def)
  show "PluginCVData_createNew Release newOk 0 PluginCVData_init
          = Inr (PluginCVData_init, [''newCount > 0''])"
    and "PluginCVData_createNew Debug newOk 0 PluginCVData_init = Inl AssertAbort"
    by (simp_all add: PluginCVData_createNew_def PluginCVData_init_def)
  show "PluginParameterData_createNew Release newOks d r 0 w PluginParameterData_init
          = Inr (PluginParameterData_init, [''newCount > 0''])"
    and "PluginParameterData_createNew Debug newOks d r 0 w PluginParameterData_init
          = Inl AssertAbort"
    by (simp_all add: PluginParameterData_createNew_def PluginParameterData_init_def)
  show "PluginProgramData_createNew Release newOk 0 PluginProgramData_init
          = Inr (PluginProgramData_init, [''newCount > 0''])"
    and "PluginProgramData_createNew Debug newOk 0 PluginProgramData_init = Inl AssertAbort"
    by (simp_all add: PluginProgramData_createNew_def PluginProgramData_init_def)
  show "PluginMidiProgramData_createNew Release newOk 0 PluginMidiProgramData_init
          = Inr (PluginMidiProgramData_init, [''newCount > 0''])"
    and "PluginMidiProgramData_createNew Debug newOk 0 PluginMidiProgramData_init
          = Inl AssertAbort"
    by (simp_all add: PluginMidiProgramData_createNew_def PluginMidiProgramData_init_def)
qed

theorem createNew_zero_idle_witness:
  "PluginCVData_createNew Release True 0 PluginCVData_init
     = Inr (PluginCVData_init, [''newCount > 0''])
   \<and> PluginParameterData_createNew Release (True, True, True) (0::nat) (0::int, 1::int) 0 True
       PluginParameterData_init
     = Inr (PluginParameterData_init, [''newCount > 0''])
   \<and> PluginProgramData_createNew Debug True 0 PluginProgramData_init = Inl AssertAbort"
  using createNew_zero_idle [of True "(True, True, True)" "0::nat" "(0::int, 1::int)" True]
  by blast

text \<open>
  In a debug build \<open>createNew(0)\<close> on an idle audio table does not return the table: the
  assertion \<open>newCount > 0\<close> stops the program.
\<close>

theorem createNew_zero_debug_aborts:
  "PluginAudioData_createNew Debug True 0 PluginAudioData_init = Inl AssertAbort"
  by (simp add: PluginAudioData_createNew_def PluginAudioData_init_def)

subsection \<open>The lifecycle invariant\<close>

















text \<open>
  What a throw in the middle of the parameter table's \<open>createNew\<close> leaves behind: when
  the allocation of \<open>data\<close> succeeds and that of \<open>ranges\<close> fails, \<open>data\<close> is already
  assigned while \<open>ranges\<close> is null and \<open>count\<close> is still 0.
\<close>

lemma PluginParameterData_createNew_throws_midway:
  "0 < n \<Longrightarrow>
     PluginParameterData_createNew b (True, False, ok3) d r n w PluginParameterData_init
       = Inl (BadAlloc (PluginParameterData_init
                          \<lparr>PluginParameterData.data := Some (replicate (unat n) d)\<rparr>))"
  by (auto simp add: PluginParameterData_createNew_def PluginParameterData_init_def Let_def)





subsection \<open>Guarded reads\<close>

text \<open>
  C8. \<open>getFixedValue(parameterId, value)\<close> with \<open>parameterId >= count\<close> returns 0.0
  and reports the failed check, whatever the \<open>ranges\<close> pointer is: the array is not
  read. With \<open>parameterId < count\<close>, on a table whose \<open>ranges\<close> array is allocated
  with at least \<open>count\<close> elements, it returns the fixed value that the range of that
  parameter gives for \<open>value\<close>.
\<close>

theorem getFixedValue_guarded:
  "(\<not> parameterId < PluginParameterData.count t \<longrightarrow>
      PluginParameterData_getFixedValue fixedValue (t\<lparr>PluginParameterData.ranges := anyRanges\<rparr>)
        parameterId v = Inr (0, [''parameterId < count'']))
   \<and> (parameterId < PluginParameterData.count t \<longrightarrow>
        PluginParameterData.ranges t = Some rs \<longrightarrow>
        unat (PluginParameterData.count t) \<le> length rs \<longrightarrow>
        PluginParameterData_getFixedValue fixedValue t parameterId v
          = Inr (fixedValue (rs ! unat parameterId) v, []))"
proof (intro conjI impI)
  assume "\<not> parameterId < PluginParameterData.count t"
  then show "PluginParameterData_getFixedValue fixedValue
               (t\<lparr>PluginParameterData.ranges := anyRanges\<rparr>) parameterId v
             = Inr (0, [''parameterId < count''])"
    by (simp add: PluginParameterData_getFixedValue_def)
next
  assume lt: "parameterId < PluginParameterData.count t"
    and rs: "PluginParameterData.ranges t = Some rs"
    and len: "unat (PluginParameterData.count t) \<le> length rs"
  from lt have "unat parameterId < unat (PluginParameterData.count t)"
    by (simp add: word_less_nat_alt)
  with len have "unat parameterId < length rs" by simp
  with lt rs show "PluginParameterData_getFixedValue fixedValue t parameterId v
                   = Inr (fixedValue (rs ! unat parameterId) v, [])"
    by (simp add: PluginParameterData_getFixedValue_def)
qed

theorem getFixedValue_guarded_witness:
  "\<not> (2::32 word) < PluginParameterData.count sample_param
   \<and> PluginParameterData_getFixedValue sample_fixedValue
       (sample_param\<lparr>PluginParameterData.ranges := None\<rparr>) 2 7
     = Inr (0, [''parameterId < count''])
   \<and> (1::32 word) < PluginParameterData.count sample_param
   \<and> PluginParameterData.ranges sample_param = Some [(0, 10), (- 5, 5)]
   \<and> unat (PluginParameterData.count sample_param) \<le> length [(0::int, 10::int), (- 5, 5)]
   \<and> PluginParameterData_getFixedValue sample_fixedValue sample_param 1 7 = Inr (5, [])"
proof -
  have ge: "\<not> (2::32 word) < PluginParameterData.count sample_param"
    by (simp add: sample_param_def)
  have lt: "(1::32 word) < PluginParameterData.count sample_param"
    by (simp add: sample_param_def)
  have rs: "PluginParameterData.ranges sample_param = Some [(0, 10), (- 5, 5)]"
    by (simp add: sample_param_def)
  have len: "unat (PluginParameterData.count sample_param)
               \<le> length [(0::int, 10::int), (- 5, 5)]"
    by (simp add: sample_param_def)
  from getFixedValue_guarded
         [of 2 sample_param sample_fixedValue None "7::int" "[(0, 10), (- 5, 5)]"] ge
  have out: "PluginParameterData_getFixedValue sample_fixedValue
               (sample_param\<lparr>PluginParameterData.ranges := None\<rparr>) 2 7
             = Inr (0, [''parameterId < count''])"
    by blast
  from getFixedValue_guarded
         [of 1 sample_param sample_fixedValue None "7::int" "[(0, 10), (- 5, 5)]"] lt rs len
  have "PluginParameterData_getFixedValue sample_fixedValue sample_param 1 7
          = Inr (sample_fixedValue ([(0, 10), (- 5, 5)] ! unat (1::32 word)) 7, [])"
    by blast
  then have inside: "PluginParameterData_getFixedValue sample_fixedValue sample_param 1 7
                       = Inr (5, [])"
    by (simp add: sample_fixedValue_def)
  from ge out lt rs len inside show ?thesis by blast
qed

text \<open>
  C1 (what the code does at the failing input). On a MIDI-program table with two
  entries, \<open>getCurrent()\<close> with \<open>current = count = 2\<close> or \<open>current = -2\<close> has no
  defined result: a debug build stops at the assertion, and a release build reports the
  assertion and then reads \<^verbatim>\<open>data[current]\<close> outside the array. With \<open>current\<close> in
  range the entry is returned.
\<close>

theorem getCurrent_out_of_range:
  "PluginMidiProgramData_getCurrent Release
     (sample_midiprog\<lparr>PluginMidiProgramData.current := 2\<rparr>) = Inl OutOfBounds
   \<and> PluginMidiProgramData_getCurrent Debug
       (sample_midiprog\<lparr>PluginMidiProgramData.current := 2\<rparr>) = Inl AssertAbort
   \<and> PluginMidiProgramData_getCurrent Release
       (sample_midiprog\<lparr>PluginMidiProgramData.current := - 2\<rparr>) = Inl OutOfBounds
   \<and> PluginMidiProgramData_getCurrent Debug
       (sample_midiprog\<lparr>PluginMidiProgramData.current := - 2\<rparr>) = Inl AssertAbort
   \<and> PluginMidiProgramData_getCurrent Release
       (sample_midiprog\<lparr>PluginMidiProgramData.current := 1\<rparr>)
     = Inr (\<lparr>bank = 0, program = 1, name = None\<rparr>, [])"
  by (simp add: PluginMidiProgramData_getCurrent_def sample_midiprog_def)

subsection \<open>The report queue\<close>

lemma trySplice_free:
  "mutex s = Free \<Longrightarrow>
     PostRtEvents_trySplice s
       = (s\<lparr>dataPendingRT := [], PostRtEvents.data := PostRtEvents.data s @ dataPendingRT s\<rparr>,
          [CallTryLock, CallUnlock])"
  by (simp add: PostRtEvents_trySplice_def CarlaMutex_tryLock_def CarlaMutex_unlock_def
        RtLinkedList_spliceAppend_def)

lemma trySplice_held:
  "mutex s \<noteq> Free \<Longrightarrow> PostRtEvents_trySplice s = (s, [CallTryLock])"
  by (cases "mutex s")
    (simp_all add: PostRtEvents_trySplice_def CarlaMutex_tryLock_def)

lemma appendRT_room:
  "length (PostRtEvents.data s) + length (dataPendingRT s) < dataPool s \<Longrightarrow>
     PostRtEvents_appendRT e s = (s\<lparr>dataPendingRT := dataPendingRT s @ [e]\<rparr>, [])"
  by (simp add: PostRtEvents_appendRT_def RtLinkedList_append_def)

lemma rt_run_appends:
  "length (PostRtEvents.data s) + length (dataPendingRT s) + length es \<le> dataPool s \<Longrightarrow>
     rt_run (map AppendRT es @ steps) s
       = rt_run steps (s\<lparr>dataPendingRT := dataPendingRT s @ es\<rparr>)"
proof (induction es arbitrary: s)
  case Nil
  then show ?case by simp
next
  case (Cons e es)
  from Cons.prems
  have room: "length (PostRtEvents.data s) + length (dataPendingRT s) < dataPool s"
    by simp
  let ?s1 = "s\<lparr>dataPendingRT := dataPendingRT s @ [e]\<rparr>"
  from Cons.prems
  have "length (PostRtEvents.data ?s1) + length (dataPendingRT ?s1) + length es \<le> dataPool ?s1"
    by simp
  from Cons.IH [OF this] appendRT_room [OF room, of e]
  show ?case by simp
qed

lemma rt_run_calls:
  "set (snd (rt_run steps s)) \<subseteq> {CallTryLock, CallUnlock}"
proof (induction steps arbitrary: s)
  case Nil
  then show ?case by simp
next
  case (Cons st steps)
  show ?case
  proof (cases st)
    case (AppendRT e)
    obtain s2 calls2 where r: "rt_run steps (fst (PostRtEvents_appendRT e s)) = (s2, calls2)"
      by (cases "rt_run steps (fst (PostRtEvents_appendRT e s))")
    from Cons.IH [of "fst (PostRtEvents_appendRT e s)"] r
    have "set calls2 \<subseteq> {CallTryLock, CallUnlock}" by simp
    with AppendRT r show ?thesis
      by (simp add: PostRtEvents_appendRT_def)
  next
    case TrySplice
    obtain s1 calls where t: "PostRtEvents_trySplice s = (s1, calls)"
      by (cases "PostRtEvents_trySplice s")
    obtain s2 calls2 where r: "rt_run steps s1 = (s2, calls2)"
      by (cases "rt_run steps s1")
    have "set calls \<subseteq> {CallTryLock, CallUnlock}"
      using t trySplice_free [of s] trySplice_held [of s] by (cases "mutex s = Free") auto
    moreover from Cons.IH [of s1] r have "set calls2 \<subseteq> {CallTryLock, CallUnlock}" by simp
    ultimately show ?thesis using TrySplice t r by simp
  next
    case (OtherThread m)
    with Cons.IH [of "s\<lparr>mutex := m\<rparr>"] show ?thesis by simp
  qed
qed

text \<open>
  C3. When the report mutex is free, \<open>trySplice\<close> moves the whole pending queue behind
  the events already on the consumer-visible queue, in their order: afterwards the
  pending queue is empty, the visible queue is the old one followed by the pending
  events, its length has grown by their number, and the mutex is free again. When the
  mutex is held, \<open>trySplice\<close> changes nothing. In both cases the events of the two
  queues together stay the same sequence, so none is lost or duplicated. Events appended
  by the real-time side while the pool has room and then spliced arrive behind the older
  ones in the order they were appended.
\<close>

theorem trySplice_moves_pending:
  "(mutex s = Free \<longrightarrow>
      dataPendingRT (fst (PostRtEvents_trySplice s)) = []
    \<and> PostRtEvents.data (fst (PostRtEvents_trySplice s))
        = PostRtEvents.data s @ dataPendingRT s
    \<and> length (PostRtEvents.data (fst (PostRtEvents_trySplice s)))
        = length (PostRtEvents.data s) + length (dataPendingRT s)
    \<and> mutex (fst (PostRtEvents_trySplice s)) = Free)
   \<and> (mutex s \<noteq> Free \<longrightarrow> fst (PostRtEvents_trySplice s) = s)
   \<and> PostRtEvents.data (fst (PostRtEvents_trySplice s))
        @ dataPendingRT (fst (PostRtEvents_trySplice s))
      = PostRtEvents.data s @ dataPendingRT s
   \<and> (mutex s = Free \<longrightarrow>
        length (PostRtEvents.data s) + length (dataPendingRT s) + length es \<le> dataPool s \<longrightarrow>
        PostRtEvents.data (fst (rt_run (map AppendRT es @ [TrySplice]) s))
          = PostRtEvents.data s @ dataPendingRT s @ es
        \<and> dataPendingRT (fst (rt_run (map AppendRT es @ [TrySplice]) s)) = [])"
proof (intro conjI impI)
  assume free: "mutex s = Free"
    and room: "length (PostRtEvents.data s) + length (dataPendingRT s) + length es \<le> dataPool s"
  let ?s1 = "s\<lparr>dataPendingRT := dataPendingRT s @ es\<rparr>"
  from free have "mutex ?s1 = Free" by simp
  then have run: "rt_run (map AppendRT es @ [TrySplice]) s
      = (?s1\<lparr>dataPendingRT := [],
              PostRtEvents.data := PostRtEvents.data ?s1 @ dataPendingRT ?s1\<rparr>,
         [CallTryLock, CallUnlock])"
    using rt_run_appends [OF room, of "[TrySplice]"] trySplice_free [of ?s1] by simp
  from run show "PostRtEvents.data (fst (rt_run (map AppendRT es @ [TrySplice]) s))
                 = PostRtEvents.data s @ dataPendingRT s @ es"
    by simp
  from run show "dataPendingRT (fst (rt_run (map AppendRT es @ [TrySplice]) s)) = []"
    by simp
next
  show "PostRtEvents.data (fst (PostRtEvents_trySplice s))
          @ dataPendingRT (fst (PostRtEvents_trySplice s))
        = PostRtEvents.data s @ dataPendingRT s"
    using trySplice_free [of s] trySplice_held [of s] by (cases "mutex s = Free") simp_all
qed (simp_all add: trySplice_free trySplice_held)

theorem trySplice_moves_pending_witness:
  "mutex sample_queue = Free
   \<and> dataPendingRT (fst (PostRtEvents_trySplice sample_queue)) = []
   \<and> PostRtEvents.data (fst (PostRtEvents_trySplice sample_queue))
       = [sample_noteOn, sample_paramChange, sample_noteOff]
   \<and> mutex (sample_queue\<lparr>mutex := HeldByOther\<rparr>) \<noteq> Free
   \<and> fst (PostRtEvents_trySplice (sample_queue\<lparr>mutex := HeldByOther\<rparr>))
       = sample_queue\<lparr>mutex := HeldByOther\<rparr>
   \<and> length (PostRtEvents.data sample_queue) + length (dataPendingRT sample_queue)
       + length [sample_noteOn, sample_noteOff] \<le> dataPool sample_queue
   \<and> PostRtEvents.data
       (fst (rt_run (map AppendRT [sample_noteOn, sample_noteOff] @ [TrySplice]) sample_queue))
       = [sample_noteOn, sample_paramChange, sample_noteOff, sample_noteOn, sample_noteOff]"
proof -
  have free: "mutex sample_queue = Free" by (simp add: sample_queue_def)
  have held: "mutex (sample_queue\<lparr>mutex := HeldByOther\<rparr>) \<noteq> Free" by simp
  have room: "length (PostRtEvents.data sample_queue) + length (dataPendingRT sample_queue)
                + length [sample_noteOn, sample_noteOff] \<le> dataPool sample_queue"
    by (simp add: sample_queue_def)
  have cat: "PostRtEvents.data sample_queue @ dataPendingRT sample_queue
               = [sample_noteOn, sample_paramChange, sample_noteOff]"
    by (simp add: sample_queue_def)
  from trySplice_moves_pending [of sample_queue "[sample_noteOn, sample_noteOff]"] free room cat
  have moved: "dataPendingRT (fst (PostRtEvents_trySplice sample_queue)) = []
      \<and> PostRtEvents.data (fst (PostRtEvents_trySplice sample_queue))
          = [sample_noteOn, sample_paramChange, sample_noteOff]
      \<and> PostRtEvents.data
          (fst (rt_run (map AppendRT [sample_noteOn, sample_noteOff] @ [TrySplice]) sample_queue))
          = [sample_noteOn, sample_paramChange, sample_noteOff, sample_noteOn, sample_noteOff]"
    by simp
  from trySplice_moves_pending [of "sample_queue\<lparr>mutex := HeldByOther\<rparr>" "[]"] held
  have kept: "fst (PostRtEvents_trySplice (sample_queue\<lparr>mutex := HeldByOther\<rparr>))
                = sample_queue\<lparr>mutex := HeldByOther\<rparr>"
    by blast
  from free moved held kept room show ?thesis by blast
qed

text \<open>
  C4. \<open>appendRT\<close> makes no call on the report mutex and leaves the mutex and the
  consumer-visible queue as they are: it only puts the event at the end of the pending
  queue (or drops it when the pool has no free node). \<open>trySplice\<close> never calls the
  blocking \<open>lock\<close>; when the mutex is held, its one call is the failed \<open>tryLock\<close> and
  nothing changes. So whatever the real-time side runs of the two, and whatever other
  threads do to the mutex in between, no blocking \<open>lock\<close> is called on the report mutex.
\<close>

theorem rt_side_never_locks:
  "snd (PostRtEvents_appendRT e s) = []
   \<and> mutex (fst (PostRtEvents_appendRT e s)) = mutex s
   \<and> PostRtEvents.data (fst (PostRtEvents_appendRT e s)) = PostRtEvents.data s
   \<and> dataPendingRT (fst (PostRtEvents_appendRT e s))
       = (if length (PostRtEvents.data s) + length (dataPendingRT s) < dataPool s
          then dataPendingRT s @ [e] else dataPendingRT s)
   \<and> CallLock \<notin> set (snd (PostRtEvents_trySplice s))
   \<and> (mutex s \<noteq> Free \<longrightarrow> PostRtEvents_trySplice s = (s, [CallTryLock]))
   \<and> CallLock \<notin> set (snd (rt_run steps s))"
proof (intro conjI impI)
  show "CallLock \<notin> set (snd (PostRtEvents_trySplice s))"
    using trySplice_free [of s] trySplice_held [of s] by (cases "mutex s = Free") simp_all
  show "CallLock \<notin> set (snd (rt_run steps s))"
    using rt_run_calls [of steps s] by auto
  assume "mutex s \<noteq> Free"
  then show "PostRtEvents_trySplice s = (s, [CallTryLock])" by (rule trySplice_held)
qed (simp_all add: PostRtEvents_appendRT_def RtLinkedList_append_def)

theorem rt_side_never_locks_witness:
  "snd (PostRtEvents_appendRT sample_noteOn sample_queue) = []
   \<and> dataPendingRT (fst (PostRtEvents_appendRT sample_noteOn sample_queue))
       = [sample_paramChange, sample_noteOff, sample_noteOn]
   \<and> mutex (sample_queue\<lparr>mutex := HeldByOther\<rparr>) \<noteq> Free
   \<and> PostRtEvents_trySplice (sample_queue\<lparr>mutex := HeldByOther\<rparr>)
       = (sample_queue\<lparr>mutex := HeldByOther\<rparr>, [CallTryLock])
   \<and> CallLock \<notin> set (snd (rt_run
        [AppendRT sample_noteOn, OtherThread HeldByOther, TrySplice, AppendRT sample_noteOff,
         OtherThread Free, TrySplice] sample_queue))"
proof -
  have held: "mutex (sample_queue\<lparr>mutex := HeldByOther\<rparr>) \<noteq> Free" by simp
  from rt_side_never_locks [of sample_noteOn sample_queue
      "[AppendRT sample_noteOn, OtherThread HeldByOther, TrySplice, AppendRT sample_noteOff,
        OtherThread Free, TrySplice]"]
  have one: "snd (PostRtEvents_appendRT sample_noteOn sample_queue) = []
      \<and> dataPendingRT (fst (PostRtEvents_appendRT sample_noteOn sample_queue))
          = [sample_paramChange, sample_noteOff, sample_noteOn]
      \<and> CallLock \<notin> set (snd (rt_run
           [AppendRT sample_noteOn, OtherThread HeldByOther, TrySplice, AppendRT sample_noteOff,
            OtherThread Free, TrySplice] sample_queue))"
    by (simp add: sample_queue_def)
  from rt_side_never_locks [of sample_noteOn "sample_queue\<lparr>mutex := HeldByOther\<rparr>" "[]"] held
  have two: "PostRtEvents_trySplice (sample_queue\<lparr>mutex := HeldByOther\<rparr>)
               = (sample_queue\<lparr>mutex := HeldByOther\<rparr>, [CallTryLock])"
    by blast
  from one held two show ?thesis by blast
qed

subsection \<open>Destruction of the runtime context\<close>

lemma tryLock_fst: "fst (CarlaMutex_tryLock m) = (m = Free)"
  by (cases m) (simp_all add: CarlaMutex_tryLock_def)

lemma CustomData_release_msgs:
  "set (snd (CustomData_release cs))
     \<subseteq> {''cData.type != nullptr'', ''cData.key != nullptr'', ''cData.value != nullptr''}"
  by (induction cs) (auto split: prod.splits)

lemma destroy_log:
  assumes "PluginProgramData_inBounds (prog (p :: 'b CarlaPluginProtectedData))"
    and "PluginMidiProgramData_inBounds (midiprog p)"
    and "(CARLA_ASSERT b [(uiLib p = None, ''uiLib == nullptr'')]
            :: 'b CarlaPluginProtectedData fault + string list) = Inr log4"
  shows "\<exists>p'. CarlaPluginProtectedData_destroy b clearBuffers p
           = Inr (p', CARLA_SAFE_ASSERT (\<not> needsReset p) ''! needsReset''
                      @ CARLA_SAFE_ASSERT (masterMutex p \<noteq> Free) ''! lockMaster''
                      @ CARLA_SAFE_ASSERT (singleMutex p \<noteq> Free) ''! lockSingle''
                      @ (case client p of
                           None \<Rightarrow> []
                         | Some c \<Rightarrow> (if isActive c then [''client->isActive()''] else []))
                      @ snd (CustomData_release (custom p)) @ log4)
         \<and> masterMutex p' = Free \<and> singleMutex p' = Free"
proof -
  have pc: "PluginProgramData_clear (prog p) = Inr PluginProgramData_init"
    using assms(1) by (rule PluginProgramData_clear_result)
  have mc: "PluginMidiProgramData_clear (midiprog p) = Inr PluginMidiProgramData_init"
    using assms(2) by (rule PluginMidiProgramData_clear_result)
  show ?thesis
    by (cases "client p")
      (simp_all add: CarlaPluginProtectedData_destroy_def Let_def pc mc tryLock_fst
        CarlaMutex_unlock_def libClose_def assms(3) del: CARLA_ASSERT.simps)
qed

text \<open>
  C2 (as the code has it). The destructor makes a non-blocking lock attempt on the
  master and on the single mutex and asserts that each attempt fails: the mutexes must
  have been locked before destruction. The failed assertion \<open>! lockMaster\<close>
  (\<open>! lockSingle\<close>) is reported exactly when the master (single) mutex was free, so
  that the attempt took it. When a mutex is held, by whichever thread, that assertion
  passes and destruction goes on without a report about it. In every case the destructor
  then unlocks both mutexes: both are free afterwards. The destructor runs to its end in
  a release build, and in a debug build when \<open>uiLib\<close> is null, on a context whose
  program tables hold at least \<open>count\<close> entries.
\<close>

theorem destroy_asserts_mutexes_held:
  assumes "PluginProgramData_inBounds (prog (p :: 'b CarlaPluginProtectedData))"
    and "PluginMidiProgramData_inBounds (midiprog p)"
    and "b = Release \<or> uiLib p = None"
  shows "\<exists>p' log. CarlaPluginProtectedData_destroy b clearBuffers p = Inr (p', log)
         \<and> ((''! lockMaster'' \<in> set log) = (masterMutex p = Free))
         \<and> ((''! lockSingle'' \<in> set log) = (singleMutex p = Free))
         \<and> masterMutex p' = Free \<and> singleMutex p' = Free"
proof -
  have "\<exists>log4. (CARLA_ASSERT b [(uiLib p = None, ''uiLib == nullptr'')]
                   :: 'b CarlaPluginProtectedData fault + string list) = Inr log4
          \<and> set log4 \<subseteq> {''uiLib == nullptr''}"
  proof (cases "uiLib p = None")
    case True
    then show ?thesis by simp
  next
    case False
    with assms(3) have "b = Release" by simp
    with False show ?thesis by simp
  qed
  then obtain log4 where l4: "(CARLA_ASSERT b [(uiLib p = None, ''uiLib == nullptr'')]
                                :: 'b CarlaPluginProtectedData fault + string list) = Inr log4"
    and s4: "set log4 \<subseteq> {''uiLib == nullptr''}"
    by blast
  from destroy_log [OF assms(1) assms(2) l4, of clearBuffers]
  obtain p' where d: "CarlaPluginProtectedData_destroy b clearBuffers p
           = Inr (p', CARLA_SAFE_ASSERT (\<not> needsReset p) ''! needsReset''
                      @ CARLA_SAFE_ASSERT (masterMutex p \<noteq> Free) ''! lockMaster''
                      @ CARLA_SAFE_ASSERT (singleMutex p \<noteq> Free) ''! lockSingle''
                      @ (case client p of
                           None \<Rightarrow> []
                         | Some c \<Rightarrow> (if isActive c then [''client->isActive()''] else []))
                      @ snd (CustomData_release (custom p)) @ log4)"
    and f: "masterMutex p' = Free" "singleMutex p' = Free"
    by blast
  have c1: "''! lockMaster'' \<notin> set (snd (CustomData_release (custom p)))"
    and c2: "''! lockSingle'' \<notin> set (snd (CustomData_release (custom p)))"
    using CustomData_release_msgs [of "custom p"] by auto
  have l1: "''! lockMaster'' \<notin> set log4" and l2: "''! lockSingle'' \<notin> set log4"
    using s4 by auto
  show ?thesis
    using d f c1 c2 l1 l2
    by (simp add: CARLA_SAFE_ASSERT_def split: option.splits)
qed

theorem destroy_asserts_mutexes_held_witness:
  "PluginProgramData_inBounds (prog (sample_context HeldByOther Free))
   \<and> PluginMidiProgramData_inBounds (midiprog (sample_context HeldByOther Free))
   \<and> uiLib (sample_context HeldByOther Free) = None
   \<and> (\<exists>p' log. CarlaPluginProtectedData_destroy Debug id (sample_context HeldByOther Free)
                   = Inr (p', log)
         \<and> ''! lockMaster'' \<notin> set log \<and> ''! lockSingle'' \<in> set log
         \<and> masterMutex p' = Free \<and> singleMutex p' = Free)"
proof -
  have p: "PluginProgramData_inBounds (prog (sample_context HeldByOther Free))"
    by (simp add: sample_context_def init_inBounds)
  have m: "PluginMidiProgramData_inBounds (midiprog (sample_context HeldByOther Free))"
    by (simp add: sample_context_def init_inBounds)
  have u: "uiLib (sample_context HeldByOther Free) = None"
    by (simp add: sample_context_def)
  have ms: "masterMutex (sample_context HeldByOther Free) \<noteq> Free"
    "singleMutex (sample_context HeldByOther Free) = Free"
    by (simp_all add: sample_context_def)
  from u have b: "Debug = Release \<or> uiLib (sample_context HeldByOther Free) = None" by simp
  from destroy_asserts_mutexes_held [OF p m b, of id] ms p m u
  show ?thesis by simp
qed

text \<open>
  With both mutexes held by another thread the destructor reports nothing and runs to
  its end, releasing both; with both mutexes free, so that both lock attempts succeed,
  it reports both assertions as failed.
\<close>

theorem destroy_while_held_is_silent:
  "CarlaPluginProtectedData_destroy Release id (sample_context HeldByOther HeldByOther)
     = Inr (sample_context Free Free, [])
   \<and> CarlaPluginProtectedData_destroy Release id (sample_context Free Free)
     = Inr (sample_context Free Free, [''! lockMaster'', ''! lockSingle''])"
  by (simp add: CarlaPluginProtectedData_destroy_def sample_context_def Let_def
        CARLA_SAFE_ASSERT_def CarlaMutex_tryLock_def CarlaMutex_unlock_def delete_string_def
        PluginProgramData_clear_def PluginProgramData_init_def
        PluginMidiProgramData_clear_def PluginMidiProgramData_init_def)

end
